theory Spec2Isabelle
  imports Main
begin

section \<open>Shared vocabulary\<close>

text \<open>
  Objects are identified by their address. A failure of the C++ code is a value: an
  exception that leaves the function (\<open>std::runtime_error\<close> with its message,
  \<open>std::bad_alloc\<close>, \<open>std::future_error\<close>), or undefined behaviour of the abstract
  machine (reading through a null or dangling pointer, reading past an array, subtracting
  pointers into different objects). \<open>ill_typed\<close> stands for a call that the C++ types
  rule out and that a total function must still answer.
\<close>

type_synonym addr = nat

datatype ub =
  null_dereference
| dangling_reference
| out_of_bounds_read
| unrelated_pointer_difference

datatype failure =
  runtime_error string
| bad_alloc
| undefined_behavior ub
| future_error
| ill_typed

text \<open>\<open>rcl_ret_t\<close> is an integer code; \<open>RCL_RET_OK\<close> is zero, every other value an error.\<close>

type_synonym rcl_ret_t = int

definition RCL_RET_OK :: rcl_ret_t where
  "RCL_RET_OK = 0"


section \<open>QoS event handlers (\<open>qos_event.hpp\<close>, \<open>qos_event.cpp\<close>)\<close>

text \<open>
  \<open>rcl_wait_set_t\<close> as far as \<open>is_ready\<close> reads it: the array \<open>events\<close> of pointers
  to event handles, a null pointer in every slot whose event is not ready. The length of
  the list is \<open>size_of_events\<close>.
\<close>

record rcl_wait_set_t =
  events :: "addr option list"

text \<open>
  \<open>class QOSEventHandlerBase\<close>: the member \<open>event_handle_\<close> is the native handle
  (its state is of the middleware's type \<open>'n\<close>), \<open>event_handle_addr\<close> is the address
  \<open>&event_handle_\<close> of that member, which is what the wait set stores, and
  \<open>wait_set_event_index_\<close> is the slot the handle was registered in. A name cannot end
  in an underscore here, so every member is written without the one it ends in.
\<close>

record 'n QOSEventHandlerBase =
  event_handle_addr :: addr
  event_handle :: 'n
  wait_set_event_index :: nat

text \<open>
  \<open>template class QOSEventHandler : QOSEventHandlerBase\<close> adds the callback. The callback
  is any callable on the info record \<open>'i\<close>; what it does to the user's state \<open>'u\<close> is its
  own business.
\<close>

record ('n, 'i, 'u) QOSEventHandler = "'n QOSEventHandlerBase" +
  event_callback :: "'i \<Rightarrow> 'u \<Rightarrow> 'u"

text \<open>\<open>size_t get_number_of_ready_events() { return 1; }\<close>\<close>

definition get_number_of_ready_events :: "('n, 'z) QOSEventHandlerBase_scheme \<Rightarrow> nat" where
  "get_number_of_ready_events this = 1"

text \<open>
  \<open>return wait_set->events[wait_set_event_index_] == &event_handle_;\<close>
  \<open>wait_set\<close> points at a wait set. Its array is a raw C array: an index at or past its
  size reads outside it.
\<close>

definition is_ready ::
  "('n, 'z) QOSEventHandlerBase_scheme \<Rightarrow> rcl_wait_set_t \<Rightarrow> failure + bool" where
  "is_ready this wait_set =
     (if wait_set_event_index this < length (events wait_set)
      then Inr (events wait_set ! wait_set_event_index this = Some (event_handle_addr this))
      else Inl (undefined_behavior out_of_bounds_read))"

text \<open>
  What \<open>execute\<close> does that can be seen from outside, in order: the call of
  \<open>rcl_take_event\<close>, the error message, the call of the callback with its argument.
\<close>

datatype 'i qos_action =
  take_event
| log_error string
| invoke_callback 'i

text \<open>
  \<open>execute\<close>. The middleware's \<open>rcl_take_event\<close> is a parameter: from the native handle
  it gives the return code, the info record it filled and the handle afterwards. The
  state is the handler, the user's state and the actions so far.
\<close>

definition execute ::
  "('n \<Rightarrow> rcl_ret_t \<times> 'i \<times> 'n) \<Rightarrow> ('n, 'i, 'u) QOSEventHandler \<Rightarrow> 'u \<Rightarrow> 'i qos_action list
     \<Rightarrow> ('n, 'i, 'u) QOSEventHandler \<times> 'u \<times> 'i qos_action list" where
  "execute rcl_take_event this user acts =
     (case rcl_take_event (event_handle this) of
        (ret, callback_info, handle') \<Rightarrow>
          if ret \<noteq> RCL_RET_OK
          then (this\<lparr>event_handle := handle'\<rparr>, user,
                acts @ [take_event, log_error ''Couldn't take event info''])
          else (this\<lparr>event_handle := handle'\<rparr>, event_callback this callback_info user,
                acts @ [take_event, invoke_callback callback_info]))"

text \<open>
  A middleware to run \<open>execute\<close> on: the native handle is the queue of pending
  occurrences, taking from it removes the oldest one, and taking from an empty queue is
  an error (code 1) that leaves the record as it was given.
\<close>

fun take_oldest :: "'i \<Rightarrow> 'i list \<Rightarrow> rcl_ret_t \<times> 'i \<times> 'i list" where
  "take_oldest blank [] = (1, blank, [])"
| "take_oldest blank (x # xs) = (RCL_RET_OK, x, xs)"


section \<open>Loaned messages (\<open>loaned_message.hpp\<close>)\<close>

text \<open>
  \<open>PublisherBase\<close> as far as a loaned message asks it: the two const member functions
  \<open>can_loan_messages()\<close> and \<open>get_publisher_handle()\<close>. The class is not among the
  files, so their answers are given with the publisher. Both are const queries on a
  \<open>const PublisherBase *\<close>: the answer is an attribute of the publisher, the same at
  every call.
\<close>

record PublisherBase =
  can_loan_messages :: bool
  get_publisher_handle :: nat

text \<open>
  The middleware's two loan calls, as parameters. \<open>rcl_allocate_loaned_message\<close> gives a
  pointer or null for a publisher handle (its other arguments are a null type support and
  the constant \<open>sizeof(MessageT)\<close>); \<open>rcl_deallocate_loaned_message\<close> gives a return code
  for a handle and a pointer.
\<close>

record rcl_loans =
  rcl_allocate_loaned_message :: "nat \<Rightarrow> addr option"
  rcl_deallocate_loaned_message :: "nat \<Rightarrow> addr option \<Rightarrow> rcl_ret_t"

text \<open>
  The fallback allocator: \<open>allocate(n)\<close> returns a pointer (a null one for an allocator
  that does so) or throws \<open>std::bad_alloc\<close>, as \<open>std::allocator\<close> does when it has no
  memory.
\<close>

datatype allocation =
  returns "addr option"
| throws_bad_alloc

record allocator =
  allocate :: "nat \<Rightarrow> allocation"

text \<open>The calls a loaned message makes on its collaborators, in order.\<close>

datatype loan_action =
  rcl_allocate nat
| RCLCPP_WARN string
| allocator_allocate nat
| rcl_deallocate nat "addr option"
| allocator_deallocate "addr option" nat
| RCLCPP_ERROR string
| rcl_reset_error
| unique_ptr_delete addr

text \<open>
  \<open>class LoanedMessage\<close>: \<open>pub_\<close> is a raw pointer to the publisher, \<open>message_\<close> a
  \<open>unique_ptr\<close> to the message (here the address it owns and the message stored there),
  \<open>message_allocator_\<close> a \<open>shared_ptr\<close> to the allocator. \<open>None\<close> is the null pointer.
\<close>

record 'm LoanedMessage =
  pub :: "PublisherBase option"
  message :: "(addr \<times> 'm) option"
  message_allocator :: "allocator option"

text \<open>
  Lines 78 to 87 of the constructor: where \<open>message_memory\<close> comes from. The result is
  the exception or undefined behaviour that ends the constructor there, or the pointer.
\<close>

definition message_memory_from ::
  "rcl_loans \<Rightarrow> PublisherBase \<Rightarrow> allocator option \<Rightarrow> loan_action list
     \<Rightarrow> (failure + addr option) \<times> loan_action list" where
  "message_memory_from rcl p alloc acts =
     (if can_loan_messages p
      then (Inr (rcl_allocate_loaned_message rcl (get_publisher_handle p)),
            acts @ [rcl_allocate (get_publisher_handle p)])
      else (case alloc of
              None \<Rightarrow>
                (Inl (undefined_behavior null_dereference),
                 acts @ [RCLCPP_WARN ''Currently used middleware can't loan messages. Local allocator will be used.''])
            | Some a \<Rightarrow>
                (case allocate a 1 of
                   throws_bad_alloc \<Rightarrow>
                     (Inl bad_alloc,
                      acts @ [RCLCPP_WARN ''Currently used middleware can't loan messages. Local allocator will be used.'',
                              allocator_allocate 1])
                 | returns message_memory \<Rightarrow>
                     (Inr message_memory,
                      acts @ [RCLCPP_WARN ''Currently used middleware can't loan messages. Local allocator will be used.'',
                              allocator_allocate 1]))))"

text \<open>
  The constructor \<open>LoanedMessage(pub, allocator)\<close>. \<open>blank\<close> is the value of
  \<open>MessageT()\<close>, constructed in the memory obtained. A throw leaves no object: the result
  is the failure.
\<close>

definition LoanedMessage ::
  "rcl_loans \<Rightarrow> 'm \<Rightarrow> PublisherBase option \<Rightarrow> allocator option \<Rightarrow> loan_action list
     \<Rightarrow> (failure + 'm LoanedMessage) \<times> loan_action list" where
  "LoanedMessage rcl blank pub_arg alloc acts =
     (case pub_arg of
        None \<Rightarrow> (Inl (runtime_error ''publisher pointer is null''), acts)
      | Some p \<Rightarrow>
          (case message_memory_from rcl p alloc acts of
             (Inl e, acts') \<Rightarrow> (Inl e, acts')
           | (Inr None, acts') \<Rightarrow>
               (Inl (runtime_error ''unable to allocate memory for loaned message''), acts')
           | (Inr (Some a), acts') \<Rightarrow>
               (Inr \<lparr>pub = pub_arg, message = Some (a, blank), message_allocator = alloc\<rparr>,
                acts')))"

text \<open>
  The move constructor, as the new object and \<open>other\<close> after the move. Moving a raw
  pointer copies it, and so does moving a const \<open>shared_ptr\<close>; only the \<open>unique_ptr\<close>
  leaves its source null.
\<close>

definition LoanedMessage_move :: "'m LoanedMessage \<Rightarrow> 'm LoanedMessage \<times> 'm LoanedMessage" where
  "LoanedMessage_move other =
     (\<lparr>pub = pub other, message = message other, message_allocator = message_allocator other\<rparr>,
      other\<lparr>message := None\<rparr>)"

text \<open>
  The destructor \<open>~LoanedMessage()\<close>: the undefined behaviour it runs into, if any, and
  the calls made. Where the body returns before \<open>message_.release()\<close>, the \<open>unique_ptr\<close>
  member still owns the message when the members are destroyed, and deletes it.
\<close>

definition LoanedMessage_destroy ::
  "rcl_loans \<Rightarrow> 'm LoanedMessage \<Rightarrow> loan_action list \<Rightarrow> failure option \<times> loan_action list" where
  "LoanedMessage_destroy rcl this acts =
     (case pub this of
        None \<Rightarrow>
          (None,
           acts @ [RCLCPP_ERROR ''Can't deallocate message memory. Publisher instance is NULL'']
                @ (case message this of None \<Rightarrow> [] | Some (a, m) \<Rightarrow> [unique_ptr_delete a]))
      | Some p \<Rightarrow>
          (let message_memory = map_option fst (message this) in
           if can_loan_messages p
           then (let ret = rcl_deallocate_loaned_message rcl (get_publisher_handle p) message_memory
                 in if ret \<noteq> RCL_RET_OK
                    then (None,
                          acts @ [rcl_deallocate (get_publisher_handle p) message_memory,
                                  RCLCPP_ERROR ''rcl_deallocate_loaned_message failed'',
                                  rcl_reset_error])
                    else (None, acts @ [rcl_deallocate (get_publisher_handle p) message_memory]))
           else (case message_allocator this of
                   None \<Rightarrow> (Some (undefined_behavior null_dereference), acts)
                 | Some a \<Rightarrow> (None, acts @ [allocator_deallocate message_memory 1]))))"

text \<open>\<open>bool is_valid() const { return message_ != nullptr; }\<close>\<close>

definition is_valid :: "'m LoanedMessage \<Rightarrow> bool" where
  "is_valid this = (message this \<noteq> None)"

text \<open>
  \<open>MessageT & get() const { return *message_; }\<close> Dereferencing a null \<open>unique_ptr\<close> is
  undefined; the function itself tests nothing.
\<close>

definition get :: "'m LoanedMessage \<Rightarrow> failure + 'm" where
  "get this =
     (case message this of
        None \<Rightarrow> Inl (undefined_behavior null_dereference)
      | Some (a, m) \<Rightarrow> Inr m)"




section \<open>Asynchronous parameter client (\<open>parameter_client.hpp\<close>)\<close>

subsection \<open>Messages\<close>

text \<open>
  The messages of \<open>rcl_interfaces\<close> as far as the client touches them. \<open>'v\<close> is
  \<open>rcl_interfaces::ParameterValue\<close>; a parameter type travels as a \<open>uint8_t\<close>.
\<close>

datatype 'v Parameter =
  Parameter (parameter_name: string) (parameter_value: 'v)

datatype SetParametersResult =
  SetParametersResult (successful: bool) (reason: string)

datatype ListParametersResult =
  ListParametersResult (result_names: "string list") (result_prefixes: "string list")

text \<open>
  Modelled from the spec: \<open>rclcpp::parameter::ParameterVariant\<close> (\<open>parameter.hpp\<close> is not
  among the files). The specification's example writes a result as a name with its value,
  and leaves the encoding of values out of scope: \<open>from_parameter\<close> wraps the parameter
  message and \<open>to_parameter\<close> gives it back.
\<close>

datatype 'v ParameterVariant =
  from_parameter (to_parameter: "'v Parameter")

datatype 'v request =
  GetParameters_Request "string list"
| GetParameterTypes_Request "string list"
| SetParameters_Request "'v Parameter list"
| SetParametersAtomically_Request "'v Parameter list"
| ListParameters_Request "string list" nat

datatype 'v response =
  GetParameters_Response "'v list"
| GetParameterTypes_Response "nat list"
| SetParameters_Response "SetParametersResult list"
| SetParametersAtomically_Response SetParametersResult
| ListParameters_Response ListParametersResult

text \<open>What a promise of one of the five calls is set to.\<close>

datatype 'v future_value =
  ParameterVariants "'v ParameterVariant list"
| ParameterTypes "nat list"
| SetParametersResults "SetParametersResult list"
| SetParametersResult_value SetParametersResult
| ListParametersResult_value ListParametersResult

subsection \<open>Promises, automatic objects and the transport\<close>

text \<open>
  The state a \<open>std::promise\<close> shares with its futures: not ready, ready with a value, or
  ready with the \<open>broken_promise\<close> error that the destructor of a promise stores when the
  promise dies before it was given a value.
\<close>

datatype 'v shared_state =
  not_ready
| ready "'v future_value"
| broken_promise

text \<open>
  The objects with automatic storage that the five calls create: the by-value parameters
  \<open>names\<close> and \<open>callback\<close>, and the locals \<open>promise_result\<close> and \<open>future_result\<close>. A
  promise and a future hold the number of their shared state; a \<open>std::function\<close> holds
  the number of the user's callback, or nothing when it is \<open>nullptr\<close>.
\<close>

datatype automatic =
  names_object "string list"
| callback_object "nat option"
| promise_object nat
| future_object nat

text \<open>
  The closure of each call's completion lambda: the addresses it captured, in the order of
  the capture list. \<open>[&names, &promise_result, &future_result, &callback]\<close> for
  \<open>get_parameters\<close>, \<open>[&promise_result, &future_result, &callback]\<close> for the others.
\<close>

datatype continuation =
  get_parameters_lambda addr addr addr addr
| get_parameter_types_lambda addr addr addr
| set_parameters_lambda addr addr addr
| set_parameters_atomically_lambda addr addr addr
| list_parameters_lambda addr addr addr

text \<open>
  The state of the process: the automatic objects alive (an address is never used
  twice), the shared states of the promises, the requests handed to the transport, each
  with its service name and continuation, and the user callbacks called so far, each with
  the shared state of the future it was given.
\<close>

record 'v runtime =
  stack :: "addr \<rightharpoonup> automatic"
  next_addr :: addr
  shared :: "nat \<rightharpoonup> 'v shared_state"
  next_shared :: nat
  sent :: "(string \<times> 'v request \<times> continuation) list"
  called :: "(nat \<times> nat) list"

definition new_automatic :: "automatic \<Rightarrow> 'v runtime \<Rightarrow> addr \<times> 'v runtime" where
  "new_automatic x w =
     (next_addr w, w\<lparr>stack := (stack w)(next_addr w \<mapsto> x), next_addr := Suc (next_addr w)\<rparr>)"

text \<open>\<open>std::promise<T> promise_result;\<close> creates a shared state that is not ready.\<close>

definition new_promise :: "'v runtime \<Rightarrow> nat \<times> 'v runtime" where
  "new_promise w =
     (next_shared w,
      w\<lparr>shared := (shared w)(next_shared w \<mapsto> not_ready), next_shared := Suc (next_shared w)\<rparr>)"

text \<open>The destructor of a promise abandons its shared state.\<close>

definition abandon :: "nat \<Rightarrow> 'v runtime \<Rightarrow> 'v runtime" where
  "abandon s w =
     (case shared w s of
        Some not_ready \<Rightarrow> w\<lparr>shared := (shared w)(s \<mapsto> broken_promise)\<rparr>
      | _ \<Rightarrow> w)"

definition destroy_automatic :: "addr \<Rightarrow> 'v runtime \<Rightarrow> 'v runtime" where
  "destroy_automatic a w =
     (let w1 = (case stack w a of Some (promise_object s) \<Rightarrow> abandon s w | _ \<Rightarrow> w)
      in w1\<lparr>stack := (stack w1)(a := None)\<rparr>)"

text \<open>Returning from a call destroys its automatic objects, the last one created first.\<close>

fun leave_scope :: "addr list \<Rightarrow> 'v runtime \<Rightarrow> 'v runtime" where
  "leave_scope [] w = w"
| "leave_scope (a # as) w = leave_scope as (destroy_automatic a w)"

text \<open>
  \<open>promise.set_value(v)\<close>: a shared state takes a value once; a second one is a
  \<open>std::future_error\<close>.
\<close>

definition set_value :: "nat \<Rightarrow> 'v future_value \<Rightarrow> 'v runtime \<Rightarrow> failure + 'v runtime" where
  "set_value s v w =
     (case shared w s of
        Some not_ready \<Rightarrow> Inr (w\<lparr>shared := (shared w)(s \<mapsto> ready v)\<rparr>)
      | _ \<Rightarrow> Inl future_error)"

text \<open>
  Modelled from the spec: \<open>rclcpp::node::Node\<close> (\<open>node.hpp\<close> is not among the files).
  A node has a name; with no remote name given, the client's calls go to the node's own
  name.
\<close>

record Node =
  get_name :: string

text \<open>
  Modelled from the spec: \<open>rclcpp::client::Client\<close> (\<open>client.hpp\<close> is not among the
  files), the asynchronous request transport bound to one service name.
\<close>

record Client =
  service_name :: string

text \<open>
  Modelled from the spec: \<open>Node::create_client\<close> (\<open>node.hpp\<close> is not among the files)
  gives a client for the service name.
\<close>

definition create_client :: "Node \<Rightarrow> string \<Rightarrow> Client option" where
  "create_client n name = Some \<lparr>service_name = name\<rparr>"

text \<open>
  Modelled from the spec: \<open>Client::async_send_request\<close> (\<open>client.hpp\<close> is not among the
  files) sends the request asynchronously and registers the continuation; the event loop
  calls the continuation later, when it dispatches the response.
\<close>

definition async_send_request ::
  "Client \<Rightarrow> 'v request \<Rightarrow> continuation \<Rightarrow> 'v runtime \<Rightarrow> 'v runtime" where
  "async_send_request client request k w =
     w\<lparr>sent := sent w @ [(service_name client, request, k)]\<rparr>"

subsection \<open>\<open>class AsyncParametersClient\<close>\<close>

text \<open>
  The members; a client is a \<open>shared_ptr\<close>, null until it is assigned.
\<close>

record AsyncParametersClient =
  node :: "Node option"
  get_parameters_client :: "Client option"
  get_parameter_types_client :: "Client option"
  set_parameters_client :: "Client option"
  set_parameters_atomically_client :: "Client option"
  list_parameters_client :: "Client option"
  describe_parameters_client :: "Client option"
  remote_node_name :: string

text \<open>
  The constructor. The initializer list sets \<open>node_\<close>; every other member starts
  default-constructed, and the body assigns the name and five clients.
\<close>

definition AsyncParametersClient ::
  "Node option \<Rightarrow> string \<Rightarrow> failure + AsyncParametersClient" where
  "AsyncParametersClient node_arg remote_node_name_arg =
     (case node_arg of
        None \<Rightarrow> Inl (undefined_behavior null_dereference)
      | Some n \<Rightarrow>
          (let remote = (if remote_node_name_arg \<noteq> '''' then remote_node_name_arg
                         else get_name n)
           in Inr \<lparr>node = node_arg,
                   get_parameters_client = create_client n (remote @ ''__get_parameters''),
                   get_parameter_types_client =
                     create_client n (remote @ ''__get_parameter_types''),
                   set_parameters_client = create_client n (remote @ ''__set_parameters''),
                   set_parameters_atomically_client = None,
                   list_parameters_client = create_client n (remote @ ''__list_parameters''),
                   describe_parameters_client =
                     create_client n (remote @ ''__describe_parameters''),
                   remote_node_name = remote\<rparr>))"

text \<open>
  The five calls. Each creates its automatic objects, builds the request, dereferences
  its client to send the request with the lambda, returns a copy of \<open>future_result\<close>
  (the number of its shared state), and on the way out destroys the automatic objects.
\<close>

definition get_parameters ::
  "AsyncParametersClient \<Rightarrow> string list \<Rightarrow> nat option \<Rightarrow> 'v runtime
     \<Rightarrow> failure + (nat \<times> 'v runtime)" where
  "get_parameters this names_arg callback_arg w0 =
     (let (names, w1) = new_automatic (names_object names_arg) w0;
          (callback, w2) = new_automatic (callback_object callback_arg) w1;
          (state, w3) = new_promise w2;
          (promise_result, w4) = new_automatic (promise_object state) w3;
          (future_result, w5) = new_automatic (future_object state) w4;
          request = GetParameters_Request names_arg
      in case get_parameters_client this of
           None \<Rightarrow> Inl (undefined_behavior null_dereference)
         | Some client \<Rightarrow>
             Inr (state,
                  leave_scope [future_result, promise_result, callback, names]
                    (async_send_request client request
                       (get_parameters_lambda names promise_result future_result callback) w5)))"

text \<open>
  In the four calls below the by-value parameter that is not captured (\<open>parameter_names\<close>,
  \<open>parameters\<close>, \<open>parameter_prefixes\<close>, \<open>depth\<close>) is only read to build the request.
\<close>

definition get_parameter_types ::
  "AsyncParametersClient \<Rightarrow> string list \<Rightarrow> nat option \<Rightarrow> 'v runtime
     \<Rightarrow> failure + (nat \<times> 'v runtime)" where
  "get_parameter_types this parameter_names callback_arg w0 =
     (let (callback, w1) = new_automatic (callback_object callback_arg) w0;
          (state, w2) = new_promise w1;
          (promise_result, w3) = new_automatic (promise_object state) w2;
          (future_result, w4) = new_automatic (future_object state) w3;
          request = GetParameterTypes_Request parameter_names
      in case get_parameter_types_client this of
           None \<Rightarrow> Inl (undefined_behavior null_dereference)
         | Some client \<Rightarrow>
             Inr (state,
                  leave_scope [future_result, promise_result, callback]
                    (async_send_request client request
                       (get_parameter_types_lambda promise_result future_result callback) w4)))"

definition set_parameters ::
  "AsyncParametersClient \<Rightarrow> 'v ParameterVariant list \<Rightarrow> nat option \<Rightarrow> 'v runtime
     \<Rightarrow> failure + (nat \<times> 'v runtime)" where
  "set_parameters this parameters callback_arg w0 =
     (let (callback, w1) = new_automatic (callback_object callback_arg) w0;
          (state, w2) = new_promise w1;
          (promise_result, w3) = new_automatic (promise_object state) w2;
          (future_result, w4) = new_automatic (future_object state) w3;
          request = SetParameters_Request (map to_parameter parameters)
      in case set_parameters_client this of
           None \<Rightarrow> Inl (undefined_behavior null_dereference)
         | Some client \<Rightarrow>
             Inr (state,
                  leave_scope [future_result, promise_result, callback]
                    (async_send_request client request
                       (set_parameters_lambda promise_result future_result callback) w4)))"

definition set_parameters_atomically ::
  "AsyncParametersClient \<Rightarrow> 'v ParameterVariant list \<Rightarrow> nat option \<Rightarrow> 'v runtime
     \<Rightarrow> failure + (nat \<times> 'v runtime)" where
  "set_parameters_atomically this parameters callback_arg w0 =
     (let (callback, w1) = new_automatic (callback_object callback_arg) w0;
          (state, w2) = new_promise w1;
          (promise_result, w3) = new_automatic (promise_object state) w2;
          (future_result, w4) = new_automatic (future_object state) w3;
          request = SetParametersAtomically_Request (map to_parameter parameters)
      in case set_parameters_atomically_client this of
           None \<Rightarrow> Inl (undefined_behavior null_dereference)
         | Some client \<Rightarrow>
             Inr (state,
                  leave_scope [future_result, promise_result, callback]
                    (async_send_request client request
                       (set_parameters_atomically_lambda promise_result future_result callback)
                       w4)))"

definition list_parameters ::
  "AsyncParametersClient \<Rightarrow> string list \<Rightarrow> nat \<Rightarrow> nat option \<Rightarrow> 'v runtime
     \<Rightarrow> failure + (nat \<times> 'v runtime)" where
  "list_parameters this parameter_prefixes_arg depth callback_arg w0 =
     (let (callback, w1) = new_automatic (callback_object callback_arg) w0;
          (state, w2) = new_promise w1;
          (promise_result, w3) = new_automatic (promise_object state) w2;
          (future_result, w4) = new_automatic (future_object state) w3;
          request = ListParameters_Request parameter_prefixes_arg depth
      in case list_parameters_client this of
           None \<Rightarrow> Inl (undefined_behavior null_dereference)
         | Some client \<Rightarrow>
             Inr (state,
                  leave_scope [future_result, promise_result, callback]
                    (async_send_request client request
                       (list_parameters_lambda promise_result future_result callback) w4)))"

subsection \<open>The completion lambdas\<close>

text \<open>
  Where a pointer of the \<open>get_parameters\<close> lambda points: at an element of the response's
  vector \<open>pvalues\<close>, or at the parameter of the inner lambda. Subtracting two pointers is
  defined when both point into the same array.
\<close>

datatype pointer =
  element nat
| lambda_parameter

fun pointer_difference :: "pointer \<Rightarrow> pointer \<Rightarrow> failure + int" where
  "pointer_difference (element i) (element j) = Inr (int i - int j)"
| "pointer_difference lambda_parameter lambda_parameter = Inr 0"
| "pointer_difference (element i) lambda_parameter =
     Inl (undefined_behavior unrelated_pointer_difference)"
| "pointer_difference lambda_parameter (element j) =
     Inl (undefined_behavior unrelated_pointer_difference)"

text \<open>
  The inner lambda of \<open>get_parameters\<close>, for its argument \<open>pvalue\<close> stored at \<open>at\<close>:
  \<open>i = &pvalue - &pvalues[0]\<close>, then \<open>names[i]\<close> through the captured reference, an
  unchecked read of the vector.
\<close>

definition name_of_value ::
  "'v runtime \<Rightarrow> addr \<Rightarrow> pointer \<Rightarrow> 'v \<Rightarrow> failure + 'v ParameterVariant" where
  "name_of_value w names at pvalue =
     (case pointer_difference at (element 0) of
        Inl e \<Rightarrow> Inl e
      | Inr i \<Rightarrow>
          (case stack w names of
             Some (names_object ns) \<Rightarrow>
               if 0 \<le> i \<and> nat i < length ns
               then Inr (from_parameter (Parameter (ns ! nat i) pvalue))
               else Inl (undefined_behavior out_of_bounds_read)
           | _ \<Rightarrow> Inl (undefined_behavior dangling_reference)))"

text \<open>
  \<open>std::transform\<close> with a \<open>back_inserter\<close>: the operation on each element in order, up to
  the first one that fails.
\<close>

fun transform :: "('a \<Rightarrow> failure + 'b) \<Rightarrow> 'a list \<Rightarrow> failure + 'b list" where
  "transform f [] = Inr []"
| "transform f (x # xs) =
     (case f x of
        Inl e \<Rightarrow> Inl e
      | Inr y \<Rightarrow> (case transform f xs of Inl e \<Rightarrow> Inl e | Inr ys \<Rightarrow> Inr (y # ys)))"

text \<open>
  The end of every completion lambda:
  \<open>promise_result.set_value(v); if (callback != nullptr) { callback(future_result); }\<close>
  through the three captured references.
\<close>

definition resolve ::
  "addr \<Rightarrow> addr \<Rightarrow> addr \<Rightarrow> 'v future_value \<Rightarrow> 'v runtime \<Rightarrow> failure + 'v runtime" where
  "resolve promise_result future_result callback v w =
     (case stack w promise_result of
        Some (promise_object s) \<Rightarrow>
          (case set_value s v w of
             Inl e \<Rightarrow> Inl e
           | Inr w1 \<Rightarrow>
               (case stack w1 callback of
                  Some (callback_object None) \<Rightarrow> Inr w1
                | Some (callback_object (Some c)) \<Rightarrow>
                    (case stack w1 future_result of
                       Some (future_object s') \<Rightarrow> Inr (w1\<lparr>called := called w1 @ [(c, s')]\<rparr>)
                     | _ \<Rightarrow> Inl (undefined_behavior dangling_reference))
                | _ \<Rightarrow> Inl (undefined_behavior dangling_reference)))
      | _ \<Rightarrow> Inl (undefined_behavior dangling_reference))"

text \<open>
  A completion lambda called with the response. The inner lambda of \<open>get_parameters\<close>
  takes \<open>pvalue\<close> by value, so what it sees of each element is a copy in its own
  parameter. A lambda is only ever given the response of its own service; the last
  equation is for the pairs that the types of the C++ rule out.
\<close>

fun completed :: "continuation \<Rightarrow> 'v response \<Rightarrow> 'v runtime \<Rightarrow> failure + 'v runtime" where
  "completed (get_parameters_lambda names promise_result future_result callback)
       (GetParameters_Response pvalues) w =
     (case transform (name_of_value w names lambda_parameter) pvalues of
        Inl e \<Rightarrow> Inl e
      | Inr parameter_variants \<Rightarrow>
          resolve promise_result future_result callback (ParameterVariants parameter_variants) w)"
| "completed (get_parameter_types_lambda promise_result future_result callback)
       (GetParameterTypes_Response pts) w =
     resolve promise_result future_result callback (ParameterTypes (map (\<lambda>pt. pt) pts)) w"
| "completed (set_parameters_lambda promise_result future_result callback)
       (SetParameters_Response results) w =
     resolve promise_result future_result callback (SetParametersResults results) w"
| "completed (set_parameters_atomically_lambda promise_result future_result callback)
       (SetParametersAtomically_Response result) w =
     resolve promise_result future_result callback (SetParametersResult_value result) w"
| "completed (list_parameters_lambda promise_result future_result callback)
       (ListParameters_Response result) w =
     resolve promise_result future_result callback (ListParametersResult_value result) w"
| "completed _ _ w = Inl ill_typed"


section \<open>Inputs to run the code on\<close>

text \<open>
  A middleware, three publishers and two allocators to run the loaned messages on: the
  pool has memory for handle 7 only and refuses to take back a null pointer.
\<close>

abbreviation rcl0 :: rcl_loans where
  "rcl0 \<equiv> \<lparr>rcl_allocate_loaned_message = (\<lambda>h. if h = 7 then Some 100 else None),
           rcl_deallocate_loaned_message = (\<lambda>h p. if p = None then 1 else RCL_RET_OK)\<rparr>"

abbreviation loaning :: PublisherBase where
  "loaning \<equiv> \<lparr>can_loan_messages = True, get_publisher_handle = 7\<rparr>"


abbreviation plain :: PublisherBase where
  "plain \<equiv> \<lparr>can_loan_messages = False, get_publisher_handle = 8\<rparr>"

abbreviation heap_ok :: allocator where
  "heap_ok \<equiv> \<lparr>allocate = (\<lambda>n. returns (Some 200))\<rparr>"



text \<open>A process in which nothing has happened yet.\<close>

abbreviation idle :: "int runtime" where
  "idle \<equiv> \<lparr>stack = Map.empty, next_addr = 0, shared = Map.empty, next_shared = 0,
            sent = [], called = []\<rparr>"


section \<open>Properties of the QoS event handlers\<close>

text \<open>
  C9. In every state of a handler, whatever its native handle holds,
  \<open>get_number_of_ready_events\<close> is 1.
\<close>

theorem get_number_of_ready_events_is_one:
  "get_number_of_ready_events this = 1 \<and>
   get_number_of_ready_events (this\<lparr>event_handle := pending\<rparr>) = 1"
  by (simp add: get_number_of_ready_events_def)

text \<open>
  C7. \<open>is_ready\<close> returns true exactly when the slot at the handler's own index exists and
  holds the address of the handler's own event handle. A slot that holds another handle
  gives false, and writing any other slot of the wait set does not change the answer.
\<close>

theorem is_ready_own_slot:
  "(is_ready this ws = Inr True) =
     (wait_set_event_index this < length (events ws) \<and>
      events ws ! wait_set_event_index this = Some (event_handle_addr this))
   \<and> (\<forall>other. wait_set_event_index this < length (events ws) \<and>
          events ws ! wait_set_event_index this = Some other \<and>
          other \<noteq> event_handle_addr this \<longrightarrow> is_ready this ws = Inr False)
   \<and> (\<forall>j v. j \<noteq> wait_set_event_index this \<longrightarrow>
          is_ready this (ws\<lparr>events := (events ws)[j := v]\<rparr>) = is_ready this ws)"
  by (simp add: is_ready_def)

theorem is_ready_own_slot_witness:
  "is_ready \<lparr>event_handle_addr = 40, event_handle = (), wait_set_event_index = 1\<rparr>
     \<lparr>events = [Some 30, Some 40, None]\<rparr> = Inr True
   \<and> is_ready \<lparr>event_handle_addr = 30, event_handle = (), wait_set_event_index = 1\<rparr>
     \<lparr>events = [Some 30, Some 40, None]\<rparr> = Inr False
   \<and> is_ready \<lparr>event_handle_addr = 40, event_handle = (), wait_set_event_index = 1\<rparr>
     \<lparr>events = [Some 40, Some 40, None]\<rparr> = Inr True"
proof -
  let ?h = "\<lparr>event_handle_addr = 40, event_handle = (), wait_set_event_index = 1\<rparr>"
  let ?g = "\<lparr>event_handle_addr = 30, event_handle = (), wait_set_event_index = 1\<rparr>"
  let ?ws = "\<lparr>events = [Some 30, Some (40::nat), None]\<rparr>"
  have a: "is_ready ?h ?ws = Inr True"
    using is_ready_own_slot [of ?h ?ws] by simp
  have b: "is_ready ?g ?ws = Inr False"
    using is_ready_own_slot [of ?g ?ws] by simp
  have frame: "\<And>j v. j \<noteq> wait_set_event_index ?h \<Longrightarrow>
      is_ready ?h (?ws\<lparr>events := (events ?ws)[j := v]\<rparr>) = is_ready ?h ?ws"
    using is_ready_own_slot [of ?h ?ws] by blast
  have "is_ready ?h (?ws\<lparr>events := (events ?ws)[0 := Some 40]\<rparr>) = is_ready ?h ?ws"
    by (rule frame) simp
  with a have c: "is_ready ?h \<lparr>events = [Some 40, Some 40, None]\<rparr> = Inr True"
    by simp
  from a b c show ?thesis by simp
qed

text \<open>
  C8. \<open>execute\<close> calls \<open>rcl_take_event\<close> once and leaves the native handle as that one
  call left it. When the call succeeds the callback runs once, on the record the call
  filled; when it fails the error is logged, the callback does not run, the user's state
  is untouched and nothing is taken a second time. In both cases \<open>execute\<close> returns.
\<close>

theorem execute_takes_one_event:
  "rcl_take_event (event_handle this) = (ret, info, handle') \<Longrightarrow>
   execute rcl_take_event this user acts =
     (this\<lparr>event_handle := handle'\<rparr>,
      (if ret = RCL_RET_OK then event_callback this info user else user),
      acts @ [take_event,
              if ret = RCL_RET_OK then invoke_callback info
              else log_error ''Couldn't take event info''])"
  by (simp add: execute_def)

theorem execute_takes_one_event_witness:
  "execute (take_oldest 0) \<lparr>event_handle_addr = 40, event_handle = [5, 7 :: int],
       wait_set_event_index = 1, event_callback = (\<lambda>i seen. seen @ [i])\<rparr> [] []
     = (\<lparr>event_handle_addr = 40, event_handle = [7],
         wait_set_event_index = 1, event_callback = (\<lambda>i seen. seen @ [i])\<rparr>,
        [5], [take_event, invoke_callback 5])
   \<and> execute (take_oldest 0) \<lparr>event_handle_addr = 40, event_handle = ([] :: int list),
       wait_set_event_index = 1, event_callback = (\<lambda>i seen. seen @ [i])\<rparr> [] []
     = (\<lparr>event_handle_addr = 40, event_handle = [],
         wait_set_event_index = 1, event_callback = (\<lambda>i seen. seen @ [i])\<rparr>,
        [], [take_event, log_error ''Couldn't take event info''])"
proof -
  let ?cb = "\<lambda>(i::int) seen. seen @ [i]"
  let ?h = "\<lambda>q. \<lparr>event_handle_addr = 40, event_handle = q,
       wait_set_event_index = 1, event_callback = ?cb\<rparr>"
  have ok: "take_oldest 0 (event_handle (?h [5, 7])) = (RCL_RET_OK, 5, [7])"
    by simp
  have bad: "take_oldest 0 (event_handle (?h [])) = (1, 0, [])"
    by simp
  show ?thesis
    using execute_takes_one_event [where rcl_take_event = "take_oldest 0"
            and this = "?h [5, 7]" and user = "[]" and acts = "[]", OF ok]
          execute_takes_one_event [where rcl_take_event = "take_oldest 0"
            and this = "?h []" and user = "[]" and acts = "[]", OF bad]
    by (simp add: RCL_RET_OK_def)
qed


section \<open>Properties of the loaned messages\<close>

subsection \<open>What the constructor returns, and what the destructor does to it\<close>

lemma LoanedMessage_Inr:
  assumes "LoanedMessage rcl blank (Some p) alloc acts0 = (Inr this, acts1)"
  shows "\<exists>a. this = \<lparr>pub = Some p, message = Some (a, blank), message_allocator = alloc\<rparr>
            \<and> message_memory_from rcl p alloc acts0 = (Inr (Some a), acts1)"
  using assms
  by (simp add: LoanedMessage_def split: prod.splits sum.splits option.splits)

lemma message_memory_from_pool:
  assumes "can_loan_messages p"
  shows "message_memory_from rcl p alloc acts =
     (Inr (rcl_allocate_loaned_message rcl (get_publisher_handle p)),
      acts @ [rcl_allocate (get_publisher_handle p)])"
  using assms by (simp add: message_memory_from_def)

lemma message_memory_from_allocator:
  assumes "\<not> can_loan_messages p" and "message_memory_from rcl p alloc acts = (Inr mem, acts1)"
  shows "\<exists>al. alloc = Some al \<and> allocate al 1 = returns mem \<and>
     acts1 = acts @ [RCLCPP_WARN ''Currently used middleware can't loan messages. Local allocator will be used.'',
                     allocator_allocate 1]"
  using assms by (simp add: message_memory_from_def split: option.splits allocation.splits)

lemma destroy_pool:
  assumes "can_loan_messages p"
  shows "snd (LoanedMessage_destroy rcl \<lparr>pub = Some p, message = Some (a, m), message_allocator = alloc\<rparr> acts) =
     acts @ rcl_deallocate (get_publisher_handle p) (Some a) #
       (if rcl_deallocate_loaned_message rcl (get_publisher_handle p) (Some a) = RCL_RET_OK
        then []
        else [RCLCPP_ERROR ''rcl_deallocate_loaned_message failed'', rcl_reset_error])"
  using assms by (simp add: LoanedMessage_destroy_def)

lemma destroy_allocator:
  assumes "\<not> can_loan_messages p"
  shows "snd (LoanedMessage_destroy rcl \<lparr>pub = Some p, message = Some (a, m), message_allocator = Some al\<rparr> acts) =
     acts @ [allocator_deallocate (Some a) 1]"
  using assms by (simp add: LoanedMessage_destroy_def)

lemma move_keeps:
  "fst (LoanedMessage_move \<lparr>pub = q, message = msg, message_allocator = alloc\<rparr>) =
     \<lparr>pub = q, message = msg, message_allocator = alloc\<rparr>"
  by (simp add: LoanedMessage_move_def)

text \<open>
  C4. The publisher's \<open>can_loan_messages()\<close> alone chooses where the memory comes from:
  the pool when it is true, the fallback allocator after a warning when it is false. A
  message that was constructed, or the object it was moved into, gives its memory back
  on destruction through the same collaborator and through no other: one
  \<open>rcl_deallocate_loaned_message\<close> of that very pointer (with the error logged when the
  middleware refuses it) when the pool gave it, one \<open>deallocate\<close> of that very pointer
  when the allocator did.
\<close>

theorem LoanedMessage_release_path:
  assumes "LoanedMessage rcl blank (Some p) alloc acts0 = (Inr this, acts1)"
      and "that = this \<or> that = fst (LoanedMessage_move this)"
  shows "snd (LoanedMessage rcl blank (Some p) (Some al) acts0) =
     acts0 @ (if can_loan_messages p then [rcl_allocate (get_publisher_handle p)]
              else [RCLCPP_WARN ''Currently used middleware can't loan messages. Local allocator will be used.'',
                    allocator_allocate 1])
   \<and> (\<exists>a. message that = Some (a, blank) \<and>
         (if can_loan_messages p
          then acts1 = acts0 @ [rcl_allocate (get_publisher_handle p)]
             \<and> rcl_allocate_loaned_message rcl (get_publisher_handle p) = Some a
             \<and> snd (LoanedMessage_destroy rcl that acts) =
                 acts @ rcl_deallocate (get_publisher_handle p) (Some a) #
                   (if rcl_deallocate_loaned_message rcl (get_publisher_handle p) (Some a) = RCL_RET_OK
                    then []
                    else [RCLCPP_ERROR ''rcl_deallocate_loaned_message failed'', rcl_reset_error])
          else (\<exists>al'. alloc = Some al' \<and> allocate al' 1 = returns (Some a))
             \<and> acts1 = acts0 @ [RCLCPP_WARN ''Currently used middleware can't loan messages. Local allocator will be used.'',
                                 allocator_allocate 1]
             \<and> snd (LoanedMessage_destroy rcl that acts) = acts @ [allocator_deallocate (Some a) 1]))"
proof (rule conjI)
  show "snd (LoanedMessage rcl blank (Some p) (Some al) acts0) =
     acts0 @ (if can_loan_messages p then [rcl_allocate (get_publisher_handle p)]
              else [RCLCPP_WARN ''Currently used middleware can't loan messages. Local allocator will be used.'',
                    allocator_allocate 1])"
    by (simp add: LoanedMessage_def message_memory_from_def split: option.splits allocation.splits)
next
  from LoanedMessage_Inr [OF assms(1)] obtain a where
    this_eq: "this = \<lparr>pub = Some p, message = Some (a, blank), message_allocator = alloc\<rparr>" and
    mem: "message_memory_from rcl p alloc acts0 = (Inr (Some a), acts1)"
    by (elim exE conjE)
  have that_eq: "that = \<lparr>pub = Some p, message = Some (a, blank), message_allocator = alloc\<rparr>"
    using assms(2) unfolding this_eq move_keeps by (rule disjE)
  show "\<exists>a. message that = Some (a, blank) \<and>
         (if can_loan_messages p
          then acts1 = acts0 @ [rcl_allocate (get_publisher_handle p)]
             \<and> rcl_allocate_loaned_message rcl (get_publisher_handle p) = Some a
             \<and> snd (LoanedMessage_destroy rcl that acts) =
                 acts @ rcl_deallocate (get_publisher_handle p) (Some a) #
                   (if rcl_deallocate_loaned_message rcl (get_publisher_handle p) (Some a) = RCL_RET_OK
                    then []
                    else [RCLCPP_ERROR ''rcl_deallocate_loaned_message failed'', rcl_reset_error])
          else (\<exists>al'. alloc = Some al' \<and> allocate al' 1 = returns (Some a))
             \<and> acts1 = acts0 @ [RCLCPP_WARN ''Currently used middleware can't loan messages. Local allocator will be used.'',
                                 allocator_allocate 1]
             \<and> snd (LoanedMessage_destroy rcl that acts) = acts @ [allocator_deallocate (Some a) 1])"
  proof (cases "can_loan_messages p")
    case True
    with mem have "acts1 = acts0 @ [rcl_allocate (get_publisher_handle p)]"
      and "rcl_allocate_loaned_message rcl (get_publisher_handle p) = Some a"
      by (simp_all add: message_memory_from_pool)
    with True that_eq show ?thesis
      by (simp add: destroy_pool)
  next
    case False
    from message_memory_from_allocator [OF False mem] obtain al' where
      al: "alloc = Some al'" "allocate al' 1 = returns (Some a)"
      "acts1 = acts0 @ [RCLCPP_WARN ''Currently used middleware can't loan messages. Local allocator will be used.'',
                     allocator_allocate 1]"
      by (elim exE conjE)
    with False that_eq show ?thesis
      by (simp add: destroy_allocator)
  qed
qed

theorem LoanedMessage_release_path_witness:
  "LoanedMessage rcl0 (0::nat) (Some loaning) None [] =
     (Inr \<lparr>pub = Some loaning, message = Some (100, 0), message_allocator = None\<rparr>,
      [rcl_allocate 7])
   \<and> snd (LoanedMessage_destroy rcl0
        \<lparr>pub = Some loaning, message = Some (100, 0::nat), message_allocator = None\<rparr> [])
       = [rcl_deallocate 7 (Some 100)]
   \<and> LoanedMessage rcl0 (0::nat) (Some plain) (Some heap_ok) [] =
     (Inr \<lparr>pub = Some plain, message = Some (200, 0), message_allocator = Some heap_ok\<rparr>,
      [RCLCPP_WARN ''Currently used middleware can't loan messages. Local allocator will be used.'',
       allocator_allocate 1])
   \<and> snd (LoanedMessage_destroy rcl0
        (fst (LoanedMessage_move
           \<lparr>pub = Some plain, message = Some (200, 0::nat), message_allocator = Some heap_ok\<rparr>)) [])
       = [allocator_deallocate (Some 200) 1]"
proof -
  let ?m1 = "\<lparr>pub = Some loaning, message = Some (100, 0::nat), message_allocator = None\<rparr>"
  let ?m2 = "\<lparr>pub = Some plain, message = Some (200, 0::nat), message_allocator = Some heap_ok\<rparr>"
  let ?warn = "RCLCPP_WARN ''Currently used middleware can't loan messages. Local allocator will be used.''"
  have c1: "LoanedMessage rcl0 (0::nat) (Some loaning) None [] = (Inr ?m1, [rcl_allocate 7])"
    by (simp add: LoanedMessage_def message_memory_from_def)
  have c2: "LoanedMessage rcl0 (0::nat) (Some plain) (Some heap_ok) [] =
     (Inr ?m2, [?warn, allocator_allocate 1])"
    by (simp add: LoanedMessage_def message_memory_from_def)
  have t1: "?m1 = ?m1 \<or> ?m1 = fst (LoanedMessage_move ?m1)"
    by simp
  have t2: "fst (LoanedMessage_move ?m2) = ?m2 \<or>
            fst (LoanedMessage_move ?m2) = fst (LoanedMessage_move ?m2)"
    by simp
  have d1: "snd (LoanedMessage_destroy rcl0 ?m1 []) = [rcl_deallocate 7 (Some 100)]"
    using LoanedMessage_release_path [OF c1 t1, where acts = "[]" and al = heap_ok]
    by (simp add: RCL_RET_OK_def)
  have d2: "snd (LoanedMessage_destroy rcl0 (fst (LoanedMessage_move ?m2)) [])
       = [allocator_deallocate (Some 200) 1]"
    using LoanedMessage_release_path [OF c2 t2, where acts = "[]" and al = heap_ok]
    by simp
  from c1 c2 d1 d2 show ?thesis by simp
qed

text \<open>
  C5. Moving a message that holds a buffer leaves the source invalid and the new object
  valid with the same contents. The destructor of the source then still calls its
  collaborator with a null pointer: the move copied \<open>pub_\<close>, so the guard on \<open>pub_\<close> does
  not see that the message is gone. The claim says it performs no release action.
\<close>

theorem moved_from_destroy_releases:
  "(case LoanedMessage_move \<lparr>pub = Some p, message = Some (a, m), message_allocator = Some al\<rparr> of
      (new, old) \<Rightarrow>
        is_valid old = False \<and> is_valid new \<and> get new = Inr m \<and>
        snd (LoanedMessage_destroy rcl old acts) =
          acts @ (if can_loan_messages p
                  then rcl_deallocate (get_publisher_handle p) None #
                       (if rcl_deallocate_loaned_message rcl (get_publisher_handle p) None = RCL_RET_OK
                        then []
                        else [RCLCPP_ERROR ''rcl_deallocate_loaned_message failed'', rcl_reset_error])
                  else [allocator_deallocate None 1]))"
  by (simp add: LoanedMessage_move_def LoanedMessage_destroy_def is_valid_def get_def)

theorem moved_from_destroy_releases_witness:
  "snd (LoanedMessage_destroy rcl0
     (snd (LoanedMessage_move
        \<lparr>pub = Some loaning, message = Some (100, ''hello''), message_allocator = Some heap_ok\<rparr>)) [])
     = [rcl_deallocate 7 None, RCLCPP_ERROR ''rcl_deallocate_loaned_message failed'', rcl_reset_error]
   \<and> snd (LoanedMessage_destroy rcl0
     (snd (LoanedMessage_move
        \<lparr>pub = Some plain, message = Some (200, ''hello''), message_allocator = Some heap_ok\<rparr>)) [])
     = [allocator_deallocate None 1]"
  using moved_from_destroy_releases [where p = loaning and a = 100 and m = "''hello''"
      and al = heap_ok and rcl = rcl0 and acts = "[]"]
    moved_from_destroy_releases [where p = plain and a = 200 and m = "''hello''"
      and al = heap_ok and rcl = rcl0 and acts = "[]"]
  by (simp add: RCL_RET_OK_def split: prod.splits)




text \<open>
  C10. \<open>get\<close> gives the message exactly when \<open>is_valid\<close> holds; on an invalid object, as
  the source of a move is, it dereferences a null pointer. Nothing in \<open>get\<close> tests for
  that.
\<close>

theorem get_needs_is_valid:
  "get this = (if is_valid this then Inr (snd (the (message this)))
               else Inl (undefined_behavior null_dereference))
   \<and> is_valid (snd (LoanedMessage_move this)) = False
   \<and> get (snd (LoanedMessage_move this)) = Inl (undefined_behavior null_dereference)"
  by (auto simp: get_def is_valid_def LoanedMessage_move_def split: option.splits)

theorem get_needs_is_valid_witness:
  "get \<lparr>pub = Some loaning, message = Some (100, ''hello''), message_allocator = None\<rparr>
     = Inr ''hello''
   \<and> get \<lparr>pub = Some loaning, message = (None :: (addr \<times> string) option), message_allocator = None\<rparr>
     = Inl (undefined_behavior null_dereference)"
  using get_needs_is_valid [of "\<lparr>pub = Some loaning, message = Some (100, ''hello''), message_allocator = None\<rparr>"]
    get_needs_is_valid [of "\<lparr>pub = Some loaning, message = (None :: (addr \<times> string) option), message_allocator = None\<rparr>"]
  by (simp add: is_valid_def)


section \<open>Properties of the parameter client\<close>

subsection \<open>The inner lambda of \<open>get_parameters\<close>\<close>

text \<open>
  Given the address of the element itself, the inner lambda would find the element's
  position and attach the name at that position. Given the address of its own
  parameter, it subtracts pointers into different objects.
\<close>

lemma name_of_value_at_element:
  assumes "stack w names = Some (names_object ns)" and "k < length ns"
  shows "name_of_value w names (element k) v = Inr (from_parameter (Parameter (ns ! k) v))"
  using assms by (simp add: name_of_value_def)

lemma name_of_value_at_parameter:
  "name_of_value w names lambda_parameter v =
     Inl (undefined_behavior unrelated_pointer_difference)"
  by (simp add: name_of_value_def)

text \<open>
  C1. The claim is that the future resolves to the list pairing the i-th name with the
  i-th value. In the code the inner lambda takes \<open>pvalue\<close> by value, so
  \<open>&pvalue - &pvalues[0]\<close> is not the position of the element: for every response with at
  least one value, in every state, the completion lambda runs into undefined behaviour
  before any name is attached and before the promise is set, as it does for the
  specification's example of names \<open>a\<close>, \<open>b\<close> and values 1, 2 while the locals are still
  alive. Only the empty response resolves the promise, to the empty list.
\<close>

theorem get_parameters_names_not_attached:
  "completed (get_parameters_lambda names promise_result future_result callback)
      (GetParameters_Response (v # vs)) w
     = Inl (undefined_behavior unrelated_pointer_difference)
   \<and> completed (get_parameters_lambda 0 2 3 1) (GetParameters_Response [1, 2])
        (idle\<lparr>stack := [0 \<mapsto> names_object [''a'', ''b''], 1 \<mapsto> callback_object None,
                         2 \<mapsto> promise_object 0, 3 \<mapsto> future_object 0],
               shared := [0 \<mapsto> not_ready]\<rparr>)
     = Inl (undefined_behavior unrelated_pointer_difference)
   \<and> completed (get_parameters_lambda 0 2 3 1) (GetParameters_Response [])
        (idle\<lparr>stack := [0 \<mapsto> names_object [], 1 \<mapsto> callback_object None,
                         2 \<mapsto> promise_object 0, 3 \<mapsto> future_object 0],
               shared := [0 \<mapsto> not_ready]\<rparr>)
     = Inr (idle\<lparr>stack := [0 \<mapsto> names_object [], 1 \<mapsto> callback_object None,
                         2 \<mapsto> promise_object 0, 3 \<mapsto> future_object 0],
               shared := [0 \<mapsto> ready (ParameterVariants [])]\<rparr>)"
  by (simp add: name_of_value_at_parameter resolve_def set_value_def)

text \<open>
  C2. The claim is that each of the five calls sends through a client the constructor
  initialized. The constructor assigns the clients for get, get-types, set, list and
  describe, and never \<open>set_parameters_atomically_client_\<close>: on every constructed object
  the four other calls send their request, and \<open>set_parameters_atomically\<close> dereferences
  a null pointer.
\<close>

theorem set_parameters_atomically_client_unset:
  "\<exists>this. AsyncParametersClient (Some n) remote = Inr this
     \<and> get_parameters_client this \<noteq> None
     \<and> get_parameter_types_client this \<noteq> None
     \<and> set_parameters_client this \<noteq> None
     \<and> list_parameters_client this \<noteq> None
     \<and> describe_parameters_client this \<noteq> None
     \<and> set_parameters_atomically_client this = None
     \<and> (\<exists>r. get_parameters this names callback w = Inr r)
     \<and> (\<exists>r. get_parameter_types this names callback w = Inr r)
     \<and> (\<exists>r. set_parameters this parameters callback w = Inr r)
     \<and> (\<exists>r. list_parameters this names depth callback w = Inr r)
     \<and> set_parameters_atomically this parameters callback w
          = Inl (undefined_behavior null_dereference)"
  by (simp add: AsyncParametersClient_def create_client_def Let_def split_def
        get_parameters_def get_parameter_types_def set_parameters_def list_parameters_def
        set_parameters_atomically_def)

theorem set_parameters_atomically_client_unset_witness:
  "set_parameters_atomically
     \<lparr>node = Some \<lparr>get_name = ''talker''\<rparr>,
      get_parameters_client = Some \<lparr>service_name = ''talker__get_parameters''\<rparr>,
      get_parameter_types_client = Some \<lparr>service_name = ''talker__get_parameter_types''\<rparr>,
      set_parameters_client = Some \<lparr>service_name = ''talker__set_parameters''\<rparr>,
      set_parameters_atomically_client = None,
      list_parameters_client = Some \<lparr>service_name = ''talker__list_parameters''\<rparr>,
      describe_parameters_client = Some \<lparr>service_name = ''talker__describe_parameters''\<rparr>,
      remote_node_name = ''talker''\<rparr>
     [from_parameter (Parameter ''a'' 1)] None idle
   = Inl (undefined_behavior null_dereference)"
proof -
  from set_parameters_atomically_client_unset
    [where n = "\<lparr>get_name = ''talker''\<rparr>" and remote = "[]"
       and parameters = "[from_parameter (Parameter ''a'' 1)]" and callback = None
       and w = idle and names = "[]" and depth = 0]
  obtain this where
    made: "AsyncParametersClient (Some \<lparr>get_name = ''talker''\<rparr>) [] = Inr this" and
    fails: "set_parameters_atomically this [from_parameter (Parameter ''a'' 1)] None idle
          = Inl (undefined_behavior null_dereference)"
    by blast
  from made have "this =
     \<lparr>node = Some \<lparr>get_name = ''talker''\<rparr>,
      get_parameters_client = Some \<lparr>service_name = ''talker__get_parameters''\<rparr>,
      get_parameter_types_client = Some \<lparr>service_name = ''talker__get_parameter_types''\<rparr>,
      set_parameters_client = Some \<lparr>service_name = ''talker__set_parameters''\<rparr>,
      set_parameters_atomically_client = None,
      list_parameters_client = Some \<lparr>service_name = ''talker__list_parameters''\<rparr>,
      describe_parameters_client = Some \<lparr>service_name = ''talker__describe_parameters''\<rparr>,
      remote_node_name = ''talker''\<rparr>"
    by (auto simp: AsyncParametersClient_def create_client_def Let_def)
  with fails show ?thesis by simp
qed

subsection \<open>What a call leaves behind when it returns\<close>

lemma resolve_dangling:
  assumes "stack w promise_result = None"
  shows "resolve promise_result future_result callback v w =
     Inl (undefined_behavior dangling_reference)"
  using assms by (simp add: resolve_def)


lemma new_automatic_fields:
  "fst (new_automatic x w) = next_addr w"
  "stack (snd (new_automatic x w)) = (stack w)(next_addr w \<mapsto> x)"
  "next_addr (snd (new_automatic x w)) = Suc (next_addr w)"
  "shared (snd (new_automatic x w)) = shared w"
  "next_shared (snd (new_automatic x w)) = next_shared w"
  "sent (snd (new_automatic x w)) = sent w"
  "called (snd (new_automatic x w)) = called w"
  by (simp_all add: new_automatic_def)

lemma new_promise_fields:
  "fst (new_promise w) = next_shared w"
  "stack (snd (new_promise w)) = stack w"
  "next_addr (snd (new_promise w)) = next_addr w"
  "shared (snd (new_promise w)) = (shared w)(next_shared w \<mapsto> not_ready)"
  "next_shared (snd (new_promise w)) = Suc (next_shared w)"
  "sent (snd (new_promise w)) = sent w"
  "called (snd (new_promise w)) = called w"
  by (simp_all add: new_promise_def)

lemma async_send_request_fields:
  "stack (async_send_request c r k w) = stack w"
  "next_addr (async_send_request c r k w) = next_addr w"
  "shared (async_send_request c r k w) = shared w"
  "next_shared (async_send_request c r k w) = next_shared w"
  "sent (async_send_request c r k w) = sent w @ [(service_name c, r, k)]"
  "called (async_send_request c r k w) = called w"
  by (simp_all add: async_send_request_def)

lemma destroy_automatic_fields:
  "stack (destroy_automatic a w) = (stack w)(a := None)"
  "next_addr (destroy_automatic a w) = next_addr w"
  "next_shared (destroy_automatic a w) = next_shared w"
  "sent (destroy_automatic a w) = sent w"
  "called (destroy_automatic a w) = called w"
  by (simp_all add: destroy_automatic_def abandon_def Let_def
      split: option.splits automatic.splits shared_state.splits)

lemma destroy_promise_shared:
  assumes "stack w a = Some (promise_object s)" and "shared w s = Some not_ready"
  shows "shared (destroy_automatic a w) = (shared w)(s \<mapsto> broken_promise)"
  using assms by (simp add: destroy_automatic_def abandon_def)

lemma destroy_other_shared:
  assumes "stack w a = Some x" and "\<forall>s. x \<noteq> promise_object s"
  shows "shared (destroy_automatic a w) = shared w"
  using assms by (cases x) (simp_all add: destroy_automatic_def)


lemma get_parameters_run:
  assumes "get_parameters_client this = Some client"
  shows "\<exists>w'. get_parameters this names cb w = Inr (next_shared w, w')
     \<and> sent w' = sent w @ [(service_name client, GetParameters_Request names,
          get_parameters_lambda (next_addr w) (next_addr w + 2) (next_addr w + 3) (next_addr w + 1))]
     \<and> stack w' (next_addr w) = None
     \<and> stack w' (next_addr w + 1) = None
     \<and> stack w' (next_addr w + 2) = None
     \<and> stack w' (next_addr w + 3) = None
     \<and> shared w' (next_shared w) = Some broken_promise"
proof -
  define a where "a = next_addr w"
  define s where "s = next_shared w"
  define w1 where "w1 = snd (new_automatic (names_object names) w)"
  define w2 where "w2 = snd (new_automatic (callback_object cb) w1)"
  define w3 where "w3 = snd (new_promise w2)"
  define w4 where "w4 = snd (new_automatic (promise_object s) w3)"
  define w5 where "w5 = snd (new_automatic (future_object s) w4)"
  define k where "k = get_parameters_lambda a (a + 2) (a + 3) (a + 1)"
  define w6 where "w6 = async_send_request client (GetParameters_Request names) k w5"
  define d1 where "d1 = destroy_automatic (a + 3) w6"
  define d2 where "d2 = destroy_automatic (a + 2) d1"
  define d3 where "d3 = destroy_automatic (a + 1) d2"
  define d4 where "d4 = destroy_automatic a d3"
  have addrs: "next_addr w1 = a + 1" "next_addr w2 = a + 2" "next_addr w3 = a + 2"
      "next_addr w4 = a + 3"
    by (simp_all add: w1_def w2_def w3_def w4_def a_def new_automatic_fields new_promise_fields)
  have state: "next_shared w2 = s"
    by (simp add: w1_def w2_def s_def new_automatic_fields)
  have run: "get_parameters this names cb w = Inr (s, d4)"
    using assms addrs state
    by (simp add: get_parameters_def split_def Let_def new_automatic_fields new_promise_fields
          d4_def d3_def d2_def d1_def w6_def k_def w5_def w4_def w3_def w2_def w1_def a_def s_def
          eval_nat_numeral)
  have stack6: "stack w6 = (stack w)(a \<mapsto> names_object names, a + 1 \<mapsto> callback_object cb,
        a + 2 \<mapsto> promise_object s, a + 3 \<mapsto> future_object s)"
    using addrs
    by (simp add: w6_def w5_def w4_def w3_def w2_def w1_def async_send_request_fields
          new_automatic_fields new_promise_fields a_def eval_nat_numeral)
  have shared6: "shared w6 = (shared w)(s \<mapsto> not_ready)"
    using state
    by (simp add: w6_def w5_def w4_def w3_def w2_def w1_def async_send_request_fields
          new_automatic_fields new_promise_fields)
  have sent6: "sent w6 = sent w @ [(service_name client, GetParameters_Request names, k)]"
    by (simp add: w6_def w5_def w4_def w3_def w2_def w1_def async_send_request_fields
          new_automatic_fields new_promise_fields)
  have sh1: "shared d1 = shared w6"
    unfolding d1_def
    by (rule destroy_other_shared [where x = "future_object s"]) (simp_all add: stack6)
  have st1: "stack d1 = (stack w6)(a + 3 := None)"
    by (simp add: d1_def destroy_automatic_fields)
  have sh2: "shared d2 = (shared d1)(s \<mapsto> broken_promise)"
    unfolding d2_def
    by (rule destroy_promise_shared) (simp_all add: st1 stack6 sh1 shared6)
  have st2: "stack d2 = (stack d1)(a + 2 := None)"
    by (simp add: d2_def destroy_automatic_fields)
  have sh3: "shared d3 = shared d2"
    unfolding d3_def
    by (rule destroy_other_shared [where x = "callback_object cb"])
       (simp_all add: st2 st1 stack6)
  have st3: "stack d3 = (stack d2)(a + 1 := None)"
    by (simp add: d3_def destroy_automatic_fields)
  have sh4: "shared d4 = shared d3"
    unfolding d4_def
    by (rule destroy_other_shared [where x = "names_object names"])
       (simp_all add: st3 st2 st1 stack6)
  have st4: "stack d4 = (stack d3)(a := None)"
    by (simp add: d4_def destroy_automatic_fields)
  have "sent d4 = sent w @ [(service_name client, GetParameters_Request names, k)]"
    by (simp add: d4_def d3_def d2_def d1_def destroy_automatic_fields sent6)
  moreover have "stack d4 a = None" "stack d4 (a + 1) = None" "stack d4 (a + 2) = None"
      "stack d4 (a + 3) = None"
    by (simp_all add: st4 st3 st2 st1)
  moreover have "shared d4 s = Some broken_promise"
    by (simp add: sh4 sh3 sh2)
  ultimately show ?thesis
    using run unfolding k_def a_def s_def by blast
qed


lemma set_parameters_run:
  assumes "set_parameters_client this = Some client"
  shows "\<exists>w'. set_parameters this parameters cb w = Inr (next_shared w, w')
     \<and> sent w' = sent w @ [(service_name client,
          SetParameters_Request (map to_parameter parameters),
          set_parameters_lambda (next_addr w + 1) (next_addr w + 2) (next_addr w))]
     \<and> stack w' (next_addr w) = None
     \<and> stack w' (next_addr w + 1) = None
     \<and> stack w' (next_addr w + 2) = None
     \<and> shared w' (next_shared w) = Some broken_promise"
proof -
  define a where "a = next_addr w"
  define s where "s = next_shared w"
  define w1 where "w1 = snd (new_automatic (callback_object cb) w)"
  define w2 where "w2 = snd (new_promise w1)"
  define w3 where "w3 = snd (new_automatic (promise_object s) w2)"
  define w4 where "w4 = snd (new_automatic (future_object s) w3)"
  define k where "k = set_parameters_lambda (a + 1) (a + 2) a"
  define w5 where
    "w5 = async_send_request client (SetParameters_Request (map to_parameter parameters)) k w4"
  define d1 where "d1 = destroy_automatic (a + 2) w5"
  define d2 where "d2 = destroy_automatic (a + 1) d1"
  define d3 where "d3 = destroy_automatic a d2"
  have addrs: "next_addr w1 = a + 1" "next_addr w2 = a + 1" "next_addr w3 = a + 2"
    by (simp_all add: w1_def w2_def w3_def a_def new_automatic_fields new_promise_fields)
  have state: "next_shared w1 = s"
    by (simp add: w1_def s_def new_automatic_fields)
  have run: "set_parameters this parameters cb w = Inr (s, d3)"
    using assms addrs state
    by (simp add: set_parameters_def split_def Let_def new_automatic_fields new_promise_fields
          d3_def d2_def d1_def w5_def k_def w4_def w3_def w2_def w1_def a_def s_def
          eval_nat_numeral)
  have stack5: "stack w5 = (stack w)(a \<mapsto> callback_object cb,
        a + 1 \<mapsto> promise_object s, a + 2 \<mapsto> future_object s)"
    using addrs
    by (simp add: w5_def w4_def w3_def w2_def w1_def async_send_request_fields
          new_automatic_fields new_promise_fields a_def eval_nat_numeral)
  have shared5: "shared w5 = (shared w)(s \<mapsto> not_ready)"
    using state
    by (simp add: w5_def w4_def w3_def w2_def w1_def async_send_request_fields
          new_automatic_fields new_promise_fields)
  have sent5: "sent w5 = sent w @ [(service_name client,
        SetParameters_Request (map to_parameter parameters), k)]"
    by (simp add: w5_def w4_def w3_def w2_def w1_def async_send_request_fields
          new_automatic_fields new_promise_fields)
  have sh1: "shared d1 = shared w5"
    unfolding d1_def
    by (rule destroy_other_shared [where x = "future_object s"]) (simp_all add: stack5)
  have st1: "stack d1 = (stack w5)(a + 2 := None)"
    by (simp add: d1_def destroy_automatic_fields)
  have sh2: "shared d2 = (shared d1)(s \<mapsto> broken_promise)"
    unfolding d2_def
    by (rule destroy_promise_shared) (simp_all add: st1 stack5 sh1 shared5)
  have st2: "stack d2 = (stack d1)(a + 1 := None)"
    by (simp add: d2_def destroy_automatic_fields)
  have sh3: "shared d3 = shared d2"
    unfolding d3_def
    by (rule destroy_other_shared [where x = "callback_object cb"])
       (simp_all add: st2 st1 stack5)
  have st3: "stack d3 = (stack d2)(a := None)"
    by (simp add: d3_def destroy_automatic_fields)
  have "sent d3 = sent w @ [(service_name client,
        SetParameters_Request (map to_parameter parameters), k)]"
    by (simp add: d3_def d2_def d1_def destroy_automatic_fields sent5)
  moreover have "stack d3 a = None" "stack d3 (a + 1) = None" "stack d3 (a + 2) = None"
    by (simp_all add: st3 st2 st1)
  moreover have "shared d3 s = Some broken_promise"
    by (simp add: sh3 sh2)
  ultimately show ?thesis
    using run unfolding k_def a_def s_def by blast
qed

lemma completed_get_parameters_dead:
  assumes "stack w promise_result = None"
  shows "completed (get_parameters_lambda names promise_result future_result callback)
           (GetParameters_Response pvalues) w =
         Inl (undefined_behavior
                (if pvalues = [] then dangling_reference else unrelated_pointer_difference))"
  using assms
  by (cases pvalues) (simp_all add: name_of_value_at_parameter resolve_dangling)

lemma constructed:
  "\<exists>this. AsyncParametersClient (Some n) remote = Inr this
     \<and> get_parameters_client this =
         Some \<lparr>service_name = remote_node_name this @ ''__get_parameters''\<rparr>
     \<and> set_parameters_client this =
         Some \<lparr>service_name = remote_node_name this @ ''__set_parameters''\<rparr>"
  by (simp add: AsyncParametersClient_def create_client_def Let_def)

text \<open>
  C3. The claim is that what the completion lambda uses stays alive from the return of
  the call until the lambda has run. The lambdas capture the locals and by-value
  parameters of the call by reference: when \<open>get_parameters\<close> or \<open>set_parameters\<close> has
  returned, the request is with the transport together with a lambda whose captured
  addresses all hold no object any more, the promise has been destroyed unfulfilled (the
  returned future holds \<open>broken_promise\<close>), and running the lambda on any response is
  undefined behaviour.
\<close>

theorem captured_locals_dead_at_return:
  "\<exists>this. AsyncParametersClient (Some n) remote = Inr this
     \<and> (\<exists>w'. get_parameters this names cb w = Inr (next_shared w, w')
           \<and> sent w' = sent w @ [(remote_node_name this @ ''__get_parameters'',
                GetParameters_Request names,
                get_parameters_lambda (next_addr w) (next_addr w + 2) (next_addr w + 3)
                  (next_addr w + 1))]
           \<and> stack w' (next_addr w) = None
           \<and> stack w' (next_addr w + 1) = None
           \<and> stack w' (next_addr w + 2) = None
           \<and> stack w' (next_addr w + 3) = None
           \<and> shared w' (next_shared w) = Some broken_promise
           \<and> completed (get_parameters_lambda (next_addr w) (next_addr w + 2) (next_addr w + 3)
                  (next_addr w + 1)) (GetParameters_Response pvalues) w'
               = Inl (undefined_behavior
                   (if pvalues = [] then dangling_reference else unrelated_pointer_difference)))
     \<and> (\<exists>w'. set_parameters this parameters cb w = Inr (next_shared w, w')
           \<and> sent w' = sent w @ [(remote_node_name this @ ''__set_parameters'',
                SetParameters_Request (map to_parameter parameters),
                set_parameters_lambda (next_addr w + 1) (next_addr w + 2) (next_addr w))]
           \<and> stack w' (next_addr w) = None
           \<and> stack w' (next_addr w + 1) = None
           \<and> stack w' (next_addr w + 2) = None
           \<and> shared w' (next_shared w) = Some broken_promise
           \<and> completed (set_parameters_lambda (next_addr w + 1) (next_addr w + 2) (next_addr w))
                  (SetParameters_Response results) w'
               = Inl (undefined_behavior dangling_reference))"
proof -
  from constructed obtain this where
    made: "AsyncParametersClient (Some n) remote = Inr this" and
    getc: "get_parameters_client this =
         Some \<lparr>service_name = remote_node_name this @ ''__get_parameters''\<rparr>" and
    setc: "set_parameters_client this =
         Some \<lparr>service_name = remote_node_name this @ ''__set_parameters''\<rparr>"
    by blast
  from get_parameters_run [OF getc, of names cb w] obtain w1 where
    g: "get_parameters this names cb w = Inr (next_shared w, w1)"
       "sent w1 = sent w @ [(remote_node_name this @ ''__get_parameters'',
          GetParameters_Request names,
          get_parameters_lambda (next_addr w) (next_addr w + 2) (next_addr w + 3)
            (next_addr w + 1))]"
       "stack w1 (next_addr w) = None" "stack w1 (next_addr w + 1) = None"
       "stack w1 (next_addr w + 2) = None" "stack w1 (next_addr w + 3) = None"
       "shared w1 (next_shared w) = Some broken_promise"
    by auto
  from set_parameters_run [OF setc, of parameters cb w] obtain w2 where
    s: "set_parameters this parameters cb w = Inr (next_shared w, w2)"
       "sent w2 = sent w @ [(remote_node_name this @ ''__set_parameters'',
          SetParameters_Request (map to_parameter parameters),
          set_parameters_lambda (next_addr w + 1) (next_addr w + 2) (next_addr w))]"
       "stack w2 (next_addr w) = None" "stack w2 (next_addr w + 1) = None"
       "stack w2 (next_addr w + 2) = None"
       "shared w2 (next_shared w) = Some broken_promise"
    by auto
  have gc: "completed (get_parameters_lambda (next_addr w) (next_addr w + 2) (next_addr w + 3)
                  (next_addr w + 1)) (GetParameters_Response pvalues) w1
               = Inl (undefined_behavior
                   (if pvalues = [] then dangling_reference else unrelated_pointer_difference))"
    by (rule completed_get_parameters_dead) (rule g(5))
  have sc: "completed (set_parameters_lambda (next_addr w + 1) (next_addr w + 2) (next_addr w))
                  (SetParameters_Response results) w2
               = Inl (undefined_behavior dangling_reference)"
    unfolding completed.simps by (rule resolve_dangling) (rule s(4))
  from made g gc s sc show ?thesis
    by blast
qed

theorem captured_locals_dead_at_return_witness:
  "\<exists>w'. get_parameters
     \<lparr>node = Some \<lparr>get_name = ''talker''\<rparr>,
      get_parameters_client = Some \<lparr>service_name = ''talker__get_parameters''\<rparr>,
      get_parameter_types_client = Some \<lparr>service_name = ''talker__get_parameter_types''\<rparr>,
      set_parameters_client = Some \<lparr>service_name = ''talker__set_parameters''\<rparr>,
      set_parameters_atomically_client = None,
      list_parameters_client = Some \<lparr>service_name = ''talker__list_parameters''\<rparr>,
      describe_parameters_client = Some \<lparr>service_name = ''talker__describe_parameters''\<rparr>,
      remote_node_name = ''talker''\<rparr>
     [] None idle = Inr (0, w')
   \<and> sent w' = [(''talker__get_parameters'', GetParameters_Request [],
                  get_parameters_lambda 0 2 3 1)]
   \<and> stack w' 0 = None \<and> stack w' 1 = None \<and> stack w' 2 = None \<and> stack w' 3 = None
   \<and> shared w' 0 = Some broken_promise
   \<and> completed (get_parameters_lambda 0 2 3 1) (GetParameters_Response []) w'
       = Inl (undefined_behavior dangling_reference)"
proof -
  from captured_locals_dead_at_return
    [where n = "\<lparr>get_name = ''talker''\<rparr>" and remote = "[]" and names = "[]"
       and cb = None and w = idle and pvalues = "[]" and parameters = "[]" and results = "[]"]
  obtain this w' where
    made: "AsyncParametersClient (Some \<lparr>get_name = ''talker''\<rparr>) [] = Inr this" and
    run: "get_parameters this [] None idle = Inr (next_shared idle, w')"
      "sent w' = sent idle @ [(remote_node_name this @ ''__get_parameters'',
          GetParameters_Request [],
          get_parameters_lambda (next_addr idle) (next_addr idle + 2) (next_addr idle + 3)
            (next_addr idle + 1))]"
      "stack w' (next_addr idle) = None" "stack w' (next_addr idle + 1) = None"
      "stack w' (next_addr idle + 2) = None" "stack w' (next_addr idle + 3) = None"
      "shared w' (next_shared idle) = Some broken_promise"
      "completed (get_parameters_lambda (next_addr idle) (next_addr idle + 2)
          (next_addr idle + 3) (next_addr idle + 1)) (GetParameters_Response []) w'
        = Inl (undefined_behavior
            (if ([] :: int list) = [] then dangling_reference else unrelated_pointer_difference))"
    by blast
  from made have this_is: "this =
     \<lparr>node = Some \<lparr>get_name = ''talker''\<rparr>,
      get_parameters_client = Some \<lparr>service_name = ''talker__get_parameters''\<rparr>,
      get_parameter_types_client = Some \<lparr>service_name = ''talker__get_parameter_types''\<rparr>,
      set_parameters_client = Some \<lparr>service_name = ''talker__set_parameters''\<rparr>,
      set_parameters_atomically_client = None,
      list_parameters_client = Some \<lparr>service_name = ''talker__list_parameters''\<rparr>,
      describe_parameters_client = Some \<lparr>service_name = ''talker__describe_parameters''\<rparr>,
      remote_node_name = ''talker''\<rparr>"
    by (auto simp: AsyncParametersClient_def create_client_def Let_def)
  from run show ?thesis
    unfolding this_is by (intro exI [of _ w']) (simp add: numeral_2_eq_2)
qed

end
